theory Spec2Isabelle
  imports Main "HOL-Library.Word"
begin

unbundle bit_operations_syntax

section \<open>Bytes, Python errors and the struct module\<close>

text \<open>
  A Python \<open>bytes\<close> object is a list of 8-bit values; Python integers are unbounded and
  are modelled as \<open>int\<close>. Every exception the modelled code can raise is a value of
  \<open>py_error\<close>, returned as \<open>Inl\<close>.
\<close>

type_synonym byte = "8 word"
type_synonym bytes = "byte list"

datatype py_error = StructError | ValueError | IndexError

text \<open>\<open>struct.pack\<close> of one \<open>I\<close> (unsigned 32-bit) and one \<open>B\<close> (unsigned 8-bit) item in
  little-endian order; a value out of the format's range raises \<open>struct.error\<close>.\<close>

definition pack_I :: "int \<Rightarrow> py_error + bytes" where
  "pack_I v =
     (if 0 \<le> v \<and> v \<le> 0xFFFFFFFF
      then Inr [word_of_int v, word_of_int (drop_bit 8 v),
                word_of_int (drop_bit 16 v), word_of_int (drop_bit 24 v)]
      else Inl StructError)"

definition pack_B :: "int \<Rightarrow> py_error + bytes" where
  "pack_B v = (if 0 \<le> v \<and> v \<le> 0xFF then Inr [word_of_int v] else Inl StructError)"

text \<open>Sequencing of fallible steps: the first exception raised is the result.\<close>

definition bind_err :: "py_error + 'a \<Rightarrow> ('a \<Rightarrow> py_error + 'b) \<Rightarrow> py_error + 'b" where
  "bind_err m f = (case m of Inl e \<Rightarrow> Inl e | Inr x \<Rightarrow> f x)"

text \<open>\<open>struct.pack('<IIIBBB', a, b, c, d, e, f)\<close>.\<close>

definition pack_IIIBBB :: "int \<Rightarrow> int \<Rightarrow> int \<Rightarrow> int \<Rightarrow> int \<Rightarrow> int \<Rightarrow> py_error + bytes" where
  "pack_IIIBBB a b c d e f =
     bind_err (pack_I a) (\<lambda>ba. bind_err (pack_I b) (\<lambda>bb. bind_err (pack_I c) (\<lambda>bc.
     bind_err (pack_B d) (\<lambda>bd. bind_err (pack_B e) (\<lambda>be. bind_err (pack_B f) (\<lambda>bf.
       Inr (ba @ bb @ bc @ bd @ be @ bf)))))))"

text \<open>\<open>bytes(n)\<close>: \<open>n\<close> zero bytes, \<open>ValueError\<close> for a negative count.\<close>

definition bytes_zero :: "int \<Rightarrow> py_error + bytes" where
  "bytes_zero n = (if n < 0 then Inl ValueError else Inr (replicate (nat n) 0))"

section \<open>The command block wrapper built by \<open>send_nvme_identify\<close>\<close>

definition CBW_SIGNATURE :: int where
  "CBW_SIGNATURE = 0x43425355"

text \<open>Line 115: \<open>cdb = bytes([0xE6, 0x06, 0x00, 0x01] + [0x00] * 12)\<close>.\<close>

definition identify_cdb :: bytes where
  "identify_cdb = [0xE6, 0x06, 0x00, 0x01] @ replicate 12 0x00"

text \<open>Line 112: \<open>tag = int(time.time() * 1000) & 0xFFFFFFFF\<close>; the argument is the integer
  \<open>int(time.time() * 1000)\<close>.\<close>

definition make_tag :: "int \<Rightarrow> int" where
  "make_tag now_ms = now_ms AND 0xFFFFFFFF"

text \<open>Lines 118-119, as a function of the two locals \<open>tag\<close> and \<open>cdb\<close>:
  \<open>cbw = struct.pack('<IIIBBB', CBW_SIGNATURE, tag, 4096, 0x80, 0, len(cdb))\<close> followed by
  \<open>cbw += cdb + bytes(16 - len(cdb))\<close>.\<close>

definition build_cbw :: "int \<Rightarrow> bytes \<Rightarrow> py_error + bytes" where
  "build_cbw tag cdb =
     bind_err (pack_IIIBBB CBW_SIGNATURE tag 4096 0x80 0 (int (length cdb))) (\<lambda>cbw.
     bind_err (bytes_zero (16 - int (length cdb))) (\<lambda>pad.
       Inr (cbw @ cdb @ pad)))"

section \<open>Decoding the Identify Controller structure\<close>

text \<open>\<open>struct.unpack_from('<H', data, off)[0]\<close>: the unsigned 16-bit little-endian value
  at \<open>off\<close>; \<open>struct.error\<close> when fewer than two bytes are left.\<close>

definition unpack_from_H :: "bytes \<Rightarrow> nat \<Rightarrow> py_error + int" where
  "unpack_from_H data off =
     (if length data < off + 2 then Inl StructError
      else Inr (uint (word_cat (data ! (off + 1)) (data ! off) :: 16 word)))"

text \<open>The slice \<open>xs[a:b]\<close> for non-negative bounds; Python clamps it to the sequence.\<close>

definition py_slice :: "'a list \<Rightarrow> nat \<Rightarrow> nat \<Rightarrow> 'a list" where
  "py_slice xs a b = take (b - a) (drop a xs)"

text \<open>\<open>bs.decode('ascii', errors='ignore')\<close>: every byte below 0x80 becomes the character
  with that code point, every other byte is left out.\<close>

definition decode_ascii_ignore :: "bytes \<Rightarrow> string" where
  "decode_ascii_ignore bs = map (\<lambda>b. char_of (unat b)) (filter (\<lambda>b. b < 0x80) bs)"

text \<open>\<open>str.isspace\<close> on one character with a code point below 256: the characters
  \<open>str.strip()\<close> removes.\<close>

definition py_isspace :: "char \<Rightarrow> bool" where
  "py_isspace c =
     (let n = (of_char c :: nat)
      in (9 \<le> n \<and> n \<le> 13) \<or> (28 \<le> n \<and> n \<le> 32) \<or> n = 0x85 \<or> n = 0xA0)"

text \<open>\<open>s.strip()\<close>: whitespace is removed from both ends.\<close>

definition py_strip :: "string \<Rightarrow> string" where
  "py_strip s = rev (dropWhile py_isspace (rev (dropWhile py_isspace s)))"

record identify =
  vid :: int
  ssvid :: int
  serial :: string
  model :: string
  firmware :: string

text \<open>\<open>parse_identify\<close>, lines 131-141. \<open>Inr None\<close> is the \<open>return None\<close> of line 134.\<close>

definition parse_identify :: "bytes \<Rightarrow> py_error + identify option" where
  "parse_identify data =
     (if data = [] \<or> length data < 72 then Inr None
      else bind_err (unpack_from_H data 0) (\<lambda>v.
           bind_err (unpack_from_H data 2) (\<lambda>sv.
             Inr (Some \<lparr> vid = v, ssvid = sv,
                         serial = py_strip (decode_ascii_ignore (py_slice data 4 24)),
                         model = py_strip (decode_ascii_ignore (py_slice data 24 64)),
                         firmware = py_strip (decode_ascii_ignore (py_slice data 64 72)) \<rparr>))))"

text \<open>The table \<open>VENDORS\<close>, lines 63-81, and the lookup \<open>VENDORS.get(vid, "Unknown")\<close> of
  line 224.\<close>

definition VENDORS :: "int \<rightharpoonup> string" where
  "VENDORS = map_of
     [(0x1987, ''Phison''),
      (0x144d, ''Samsung''),
      (0x15b7, ''SanDisk/Western Digital''),
      (0x1e0f, ''Kioxia''),
      (0x1c5c, ''SK Hynix''),
      (0x126f, ''Silicon Motion''),
      (0x1179, ''Toshiba''),
      (0x2646, ''Kingston''),
      (0x1dee, ''Biwin''),
      (0x1e4b, ''Maxio''),
      (0x1d97, ''Shenzhen Longsys''),
      (0x025e, ''Solidigm''),
      (0x8086, ''Intel''),
      (0x1344, ''Micron''),
      (0x1cc1, ''ADATA''),
      (0xc0a9, ''Micron''),
      (0x1d79, ''Transcend'')]"

definition vendor_name :: "int \<Rightarrow> string" where
  "vendor_name v = (case VENDORS v of None \<Rightarrow> ''Unknown'' | Some n \<Rightarrow> n)"

section \<open>The bulk transfers of \<open>send_nvme_identify\<close>\<close>

text \<open>
  The two endpoints are the environment. A transfer either raises \<open>usb.core.USBError\<close>
  (a timeout is a subclass of it) or returns; it may change the state \<open>'s\<close> of the device.
  \<open>ep_write d t\<close> is \<open>ep_out.write(d, timeout=t)\<close> and returns the number of bytes written;
  \<open>ep_read n t\<close> is \<open>ep_in.read(n, timeout=t)\<close> and returns the bytes received.
\<close>

datatype usb_error = USBError

record 's endpoints =
  ep_write :: "bytes \<Rightarrow> nat \<Rightarrow> 's \<Rightarrow> (usb_error + nat) \<times> 's"
  ep_read :: "nat \<Rightarrow> nat \<Rightarrow> 's \<Rightarrow> (usb_error + bytes) \<times> 's"

text \<open>What the function does to the outside, in order: the transfers it starts and the line
  it prints in its \<open>except\<close> clause.\<close>

datatype io_event =
    is_BulkOut: BulkOut (payload: bytes) nat
  | is_BulkIn: BulkIn nat nat
  | PrintUsbError

text \<open>
  \<open>send_nvme_identify\<close>, lines 110-128. The result is \<open>Inl e\<close> for an exception that leaves
  the function, \<open>Inr None\<close> for the \<open>return None\<close> of the \<open>except\<close> clause and
  \<open>Inr (Some data)\<close> for \<open>return data\<close>; with it come the device state and the events.
\<close>

definition send_nvme_identify ::
  "'s endpoints \<Rightarrow> int \<Rightarrow> 's \<Rightarrow> (py_error + bytes option) \<times> 's \<times> io_event list" where
  "send_nvme_identify eps now_ms s =
     (case build_cbw (make_tag now_ms) identify_cdb of
        Inl e \<Rightarrow> (Inl e, s, [])
      | Inr cbw \<Rightarrow>
         (case ep_write eps cbw 5000 s of
            (Inl err, s1) \<Rightarrow> (Inr None, s1, [BulkOut cbw 5000, PrintUsbError])
          | (Inr n, s1) \<Rightarrow>
             (case ep_read eps 4096 5000 s1 of
                (Inl err, s2) \<Rightarrow>
                  (Inr None, s2, [BulkOut cbw 5000, BulkIn 4096 5000, PrintUsbError])
              | (Inr data, s2) \<Rightarrow>
                 (case ep_read eps 13 5000 s2 of
                    (Inl err, s3) \<Rightarrow>
                      (Inr None, s3,
                       [BulkOut cbw 5000, BulkIn 4096 5000, BulkIn 13 5000, PrintUsbError])
                  | (Inr csw, s3) \<Rightarrow>
                      (Inr (Some data), s3,
                       [BulkOut cbw 5000, BulkIn 4096 5000, BulkIn 13 5000])))))"

section \<open>The end of \<open>main\<close>\<close>

text \<open>
  Lines 213-224 of \<open>main\<close>: what the program does with the value of
  \<open>send_nvme_identify\<close>. \<open>SysExit c m\<close> is the text \<open>m\<close> given to \<open>print\<close> before \<open>sys.exit(c)\<close>;
  \<open>Identified r n\<close> is the report of the record \<open>r\<close> with the vendor name \<open>n\<close>, after which
  the program ends with status 0.
\<close>

datatype outcome = SysExit int string | Identified identify string | Uncaught py_error

definition classify :: "bytes option \<Rightarrow> outcome" where
  "classify data =
     (if data = None \<or> data = Some [] then SysExit 1 (CHR 0x0A # ''ERROR: No response from drive'')
      else case parse_identify (the data) of
             Inl e \<Rightarrow> Uncaught e
           | Inr result \<Rightarrow>
               if result = None \<or> vid (the result) = 0 \<or> vid (the result) = 0xFFFF
               then SysExit 1 (CHR 0x0A # ''ERROR: Invalid response - firmware may be blocking identify'')
               else Identified (the result) (vendor_name (vid (the result))))"

text \<open>Lines 211-224: the command, then the classification of its result.\<close>

definition identify_session :: "'s endpoints \<Rightarrow> int \<Rightarrow> 's \<Rightarrow> outcome \<times> io_event list" where
  "identify_session eps now_ms s =
     (case send_nvme_identify eps now_ms s of
        (Inl e, s', evs) \<Rightarrow> (Uncaught e, evs)
      | (Inr data, s', evs) \<Rightarrow> (classify data, evs))"

section \<open>The hexadecimal dump\<close>

text \<open>\<open>data[j]\<close> for a non-negative index: \<open>IndexError\<close> beyond the end.\<close>

definition getitem :: "bytes \<Rightarrow> nat \<Rightarrow> py_error + byte" where
  "getitem data j = (if j < length data then Inr (data ! j) else Inl IndexError)"

definition hex_digit :: "nat \<Rightarrow> char" where
  "hex_digit d = (''0123456789abcdef'' ! d)"

text \<open>The format specs \<open>02x\<close> and \<open>04x\<close>: lower-case hexadecimal, padded with zeros on the
  left to at least the given width.\<close>

fun to_hex :: "nat \<Rightarrow> string" where
  "to_hex n = (if n < 16 then [hex_digit n] else to_hex (n div 16) @ [hex_digit (n mod 16)])"

definition format_x :: "nat \<Rightarrow> nat \<Rightarrow> string" where
  "format_x width n = (let s = to_hex n in replicate (width - length s) CHR ''0'' @ s)"

text \<open>\<open>sep.join(parts)\<close>.\<close>

fun join :: "string \<Rightarrow> string list \<Rightarrow> string" where
  "join sep [] = []"
| "join sep [p] = p"
| "join sep (p # q # ps) = p @ sep @ join sep (q # ps)"

text \<open>A generator expression over \<open>range(...)\<close> whose body may raise: the results in order,
  or the first exception.\<close>

fun map_err :: "('a \<Rightarrow> py_error + 'b) \<Rightarrow> 'a list \<Rightarrow> py_error + 'b list" where
  "map_err f [] = Inr []"
| "map_err f (x # xs) = bind_err (f x) (\<lambda>y. bind_err (map_err f xs) (\<lambda>ys. Inr (y # ys)))"

text \<open>\<open>range(i, min(i+16, len(data)))\<close>, the indices of one row.\<close>

definition row_range :: "bytes \<Rightarrow> nat \<Rightarrow> nat list" where
  "row_range data i = [i ..< min (i + 16) (length data)]"

text \<open>Lines 241-243: one printed row.\<close>

definition dump_row :: "bytes \<Rightarrow> nat \<Rightarrow> py_error + string" where
  "dump_row data i =
     bind_err (map_err (\<lambda>j. bind_err (getitem data j) (\<lambda>b. Inr (format_x 2 (unat b))))
                 (row_range data i)) (\<lambda>hexs.
     bind_err (map_err (\<lambda>j. bind_err (getitem data j) (\<lambda>b.
                          if 32 \<le> b \<and> b < 127
                          then bind_err (getitem data j) (\<lambda>b'. Inr (char_of (unat b')))
                          else Inr CHR ''.''))
                 (row_range data i)) (\<lambda>ascii_part.
       Inr (''  '' @ format_x 4 i @ '': '' @ join '' '' hexs @ ''  '' @ ascii_part)))"

text \<open>Lines 240-243: \<open>for i in range(0, 80, 16)\<close>.\<close>

definition hex_dump :: "bytes \<Rightarrow> py_error + string list" where
  "hex_dump data = map_err (dump_row data) [0, 16, 32, 48, 64]"

section \<open>Auxiliary definitions for the statements\<close>

text \<open>The payloads written to the bulk-OUT endpoint and the sizes asked of the bulk-IN
  endpoint, in the order of the events.\<close>

definition bulk_out_data :: "io_event list \<Rightarrow> bytes list" where
  "bulk_out_data evs = map payload (filter is_BulkOut evs)"

definition bulk_in_count :: "io_event list \<Rightarrow> nat" where
  "bulk_in_count evs = length (filter is_BulkIn evs)"

text \<open>A device for the examples. Its state is a queue of prepared outcomes for the reads:
  each read takes the next one, cut to the size asked for, and raises once the queue is
  empty. The write succeeds or raises as the flag says.\<close>

definition scripted :: "bool \<Rightarrow> ((usb_error + bytes) list) endpoints" where
  "scripted write_ok =
     \<lparr> ep_write = (\<lambda>d t q. (if write_ok then Inr (length d) else Inl USBError, q)),
       ep_read = (\<lambda>n t q. case q of
                             [] \<Rightarrow> (Inl USBError, [])
                           | Inl e # rest \<Rightarrow> (Inl e, rest)
                           | Inr d # rest \<Rightarrow> (Inr (take n d), rest)) \<rparr>"

text \<open>The bytes of an ASCII text, for writing example buffers.\<close>

definition ascii_bytes :: "string \<Rightarrow> bytes" where
  "ascii_bytes s = map (\<lambda>c. of_nat (of_char c)) s"

text \<open>The field decoding in the words of the specification: trailing space and NUL padding
  is trimmed and every byte outside the printable range 0x20..0x7E is discarded. It is
  compared with what \<open>parse_identify\<close> computes.\<close>

definition spec_trim_field :: "bytes \<Rightarrow> string" where
  "spec_trim_field raw =
     map (\<lambda>b. char_of (unat b))
       (filter (\<lambda>b. 0x20 \<le> b \<and> b \<le> 0x7E)
          (rev (dropWhile (\<lambda>b. b = 0x20 \<or> b = 0x00) (rev raw))))"

text \<open>What the code makes of a field: \<open>s\<close> is the text of the 7-bit bytes of \<open>raw\<close>, in
  order, without a longest run of whitespace at each end.\<close>

definition field_text :: "bytes \<Rightarrow> string \<Rightarrow> bool" where
  "field_text raw s =
     (\<exists>pre suf. map (\<lambda>b. char_of (unat b)) (filter (\<lambda>b. b < 0x80) raw) = pre @ s @ suf \<and>
        list_all py_isspace pre \<and> list_all py_isspace suf \<and>
        (s = [] \<or> (\<not> py_isspace (hd s) \<and> \<not> py_isspace (last s))))"

section \<open>Facts about the wrapper\<close>

lemma make_tag_range: "0 \<le> make_tag now_ms \<and> make_tag now_ms \<le> 0xFFFFFFFF"
  by (simp add: make_tag_def)

lemma pack_header:
  assumes "0 \<le> tag" "tag \<le> 0xFFFFFFFF" "n \<le> 16"
  shows "pack_IIIBBB CBW_SIGNATURE tag 4096 0x80 0 (int n) =
           Inr ([0x55, 0x53, 0x42, 0x43,
                 word_of_int tag, word_of_int (drop_bit 8 tag),
                 word_of_int (drop_bit 16 tag), word_of_int (drop_bit 24 tag),
                 0x00, 0x10, 0x00, 0x00, 0x80, 0x00, of_nat n])"
  using assms
  by (simp add: pack_IIIBBB_def pack_I_def pack_B_def bind_err_def CBW_SIGNATURE_def)

lemma build_cbw_eq:
  assumes "0 \<le> tag" "tag \<le> 0xFFFFFFFF" "length cdb \<le> 16"
  shows "build_cbw tag cdb =
           Inr ([0x55, 0x53, 0x42, 0x43,
                 word_of_int tag, word_of_int (drop_bit 8 tag),
                 word_of_int (drop_bit 16 tag), word_of_int (drop_bit 24 tag),
                 0x00, 0x10, 0x00, 0x00, 0x80, 0x00, of_nat (length cdb)]
                @ cdb @ replicate (16 - length cdb) 0)"
proof -
  have "nat (16 - int (length cdb)) = 16 - length cdb"
    by simp
  with assms show ?thesis
    by (simp add: build_cbw_def pack_header bind_err_def bytes_zero_def)
qed

text \<open>
  C1. For every tag that fits 32 bits and every CDB of at most 16 bytes, the wrapper is
  built without an exception, is exactly 31 bytes long, starts with the little-endian
  bytes 55 53 42 43 of the signature 0x43425355, carries the CDB from offset 15 on, and
  is zero from the end of the CDB to the end of the 16-byte field. (The data length 4096
  and the direction flag 0x80 are constants of the code.)
\<close>

theorem cbw_layout:
  assumes "0 \<le> tag" "tag \<le> 0xFFFFFFFF" "length cdb \<le> 16"
  shows "\<exists>cbw. build_cbw tag cdb = Inr cbw \<and> length cbw = 31 \<and>
           take 4 cbw = [0x55, 0x53, 0x42, 0x43] \<and>
           take (length cdb) (drop 15 cbw) = cdb \<and>
           drop (15 + length cdb) cbw = replicate (16 - length cdb) 0"
proof -
  define hdr :: bytes where
    "hdr = [0x55, 0x53, 0x42, 0x43,
            word_of_int tag, word_of_int (drop_bit 8 tag),
            word_of_int (drop_bit 16 tag), word_of_int (drop_bit 24 tag),
            0x00, 0x10, 0x00, 0x00, 0x80, 0x00, of_nat (length cdb)]"
  define cbw where "cbw = hdr @ cdb @ replicate (16 - length cdb) 0"
  have len: "length hdr = 15"
    by (simp add: hdr_def)
  have built: "build_cbw tag cdb = Inr cbw"
    using build_cbw_eq [OF assms] by (simp add: cbw_def hdr_def)
  have "length cbw = 31"
    using assms(3) by (simp add: cbw_def len)
  moreover have "take 4 cbw = [0x55, 0x53, 0x42, 0x43]"
    by (simp add: cbw_def hdr_def)
  moreover have "drop 15 cbw = cdb @ replicate (16 - length cdb) 0"
    by (simp add: cbw_def len)
  then have "take (length cdb) (drop 15 cbw) = cdb"
    by simp
  moreover have "drop (15 + length cdb) cbw = replicate (16 - length cdb) 0"
    by (simp add: cbw_def len)
  ultimately show ?thesis
    using built by blast
qed

text \<open>The theorem at the inputs of the program itself, the tag of a clock reading and the
  CDB of line 115, and at a CDB of four bytes, where twelve bytes of padding are added.\<close>

theorem cbw_layout_witness:
  "0 \<le> make_tag 1700000000000 \<and> make_tag 1700000000000 \<le> 0xFFFFFFFF \<and>
   length identify_cdb \<le> 16 \<and>
   (\<exists>cbw. build_cbw (make_tag 1700000000000) identify_cdb = Inr cbw \<and> length cbw = 31 \<and>
           take 4 cbw = [0x55, 0x53, 0x42, 0x43] \<and>
           take (length identify_cdb) (drop 15 cbw) = identify_cdb \<and>
           drop (15 + length identify_cdb) cbw = replicate (16 - length identify_cdb) 0) \<and>
   length [0xE6, 0x06, 0x00, 0x01 :: byte] \<le> 16 \<and>
   (\<exists>cbw. build_cbw (make_tag 1700000000000) [0xE6, 0x06, 0x00, 0x01] = Inr cbw \<and>
           length cbw = 31 \<and> take 4 cbw = [0x55, 0x53, 0x42, 0x43] \<and>
           take (length [0xE6, 0x06, 0x00, 0x01 :: byte]) (drop 15 cbw) =
             [0xE6, 0x06, 0x00, 0x01] \<and>
           drop (15 + length [0xE6, 0x06, 0x00, 0x01 :: byte]) cbw =
             replicate (16 - length [0xE6, 0x06, 0x00, 0x01 :: byte]) 0)"
proof -
  have t: "0 \<le> make_tag 1700000000000" "make_tag 1700000000000 \<le> 0xFFFFFFFF"
    by (simp_all add: make_tag_def)
  have c: "length identify_cdb \<le> 16"
    by (simp add: identify_cdb_def)
  have c4: "length [0xE6, 0x06, 0x00, 0x01 :: byte] \<le> 16"
    by simp
  show ?thesis
    using cbw_layout [OF t c] cbw_layout [OF t c4] t c c4 by blast
qed

lemma identify_cbw_eq:
  "build_cbw (make_tag now_ms) identify_cdb =
     Inr ([0x55, 0x53, 0x42, 0x43,
           word_of_int (make_tag now_ms), word_of_int (drop_bit 8 (make_tag now_ms)),
           word_of_int (drop_bit 16 (make_tag now_ms)),
           word_of_int (drop_bit 24 (make_tag now_ms)),
           0x00, 0x10, 0x00, 0x00, 0x80, 0x00, 0x10,
           0xE6, 0x06, 0x00, 0x01] @ replicate 12 0x00)"
proof -
  have "length identify_cdb \<le> 16"
    by (simp add: identify_cdb_def)
  then show ?thesis
    using build_cbw_eq [of "make_tag now_ms" identify_cdb] make_tag_range [of now_ms]
    by (simp add: identify_cdb_def)
qed

lemma sample_cbw:
  "build_cbw (make_tag 1700000000000) identify_cdb =
     Inr [0x55, 0x53, 0x42, 0x43, 0x00, 0x68, 0xE5, 0xCF, 0x00, 0x10, 0x00, 0x00, 0x80, 0x00,
          0x10, 0xE6, 0x06, 0x00, 0x01, 0, 0, 0, 0, 0, 0, 0, 0, 0, 0, 0, 0]"
  by code_simp

section \<open>Facts about \<open>send_nvme_identify\<close>\<close>

lemma send_bulk_out:
  "bulk_out_data (snd (snd (send_nvme_identify eps now_ms s))) =
     [[0x55, 0x53, 0x42, 0x43,
       word_of_int (make_tag now_ms), word_of_int (drop_bit 8 (make_tag now_ms)),
       word_of_int (drop_bit 16 (make_tag now_ms)),
       word_of_int (drop_bit 24 (make_tag now_ms)),
       0x00, 0x10, 0x00, 0x00, 0x80, 0x00, 0x10,
       0xE6, 0x06, 0x00, 0x01] @ replicate 12 0x00]"
  by (simp add: send_nvme_identify_def identify_cbw_eq bulk_out_data_def
           split: prod.splits sum.splits)

text \<open>
  C2, as the code has it. Whatever the endpoints do and whatever the clock reads,
  \<open>send_nvme_identify\<close> writes exactly one buffer to the bulk-OUT endpoint: a wrapper of
  31 bytes whose transfer length (bytes 8-11, little-endian) is 4096, whose flags byte
  is 0x80, whose LUN byte is 0, whose CDB length byte is 16 (the length of the padded
  CDB of line 115, not 4), and whose CDB field is E6 06 00 01 followed by twelve zero
  bytes.
\<close>

theorem identify_cbw_fields:
  "\<exists>cbw. bulk_out_data (snd (snd (send_nvme_identify eps now_ms s))) = [cbw] \<and>
         length cbw = 31 \<and>
         take 4 (drop 8 cbw) = [0x00, 0x10, 0x00, 0x00] \<and>
         uint (cbw ! 8) + 256 * uint (cbw ! 9) + 65536 * uint (cbw ! 10)
           + 16777216 * uint (cbw ! 11) = 4096 \<and>
         cbw ! 12 = 0x80 \<and> cbw ! 13 = 0x00 \<and> cbw ! 14 = 16 \<and>
         take 4 (drop 15 cbw) = [0xE6, 0x06, 0x00, 0x01] \<and>
         drop 19 cbw = replicate 12 0x00"
  unfolding send_bulk_out
  by simp

text \<open>The CDB length byte of the wrapper written to a device that answers both reads: it
  is 16, not 4.\<close>

theorem identify_cbw_cdblen_counterexample:
  "map (\<lambda>cbw. cbw ! 14)
     (bulk_out_data (snd (snd (send_nvme_identify (scripted True) 1700000000000
        [Inr (replicate 4096 0x00), Inr (replicate 13 0x00)])))) = [16] \<and>
   map (\<lambda>cbw. cbw ! 14)
     (bulk_out_data (snd (snd (send_nvme_identify (scripted True) 1700000000000
        [Inr (replicate 4096 0x00), Inr (replicate 13 0x00)])))) \<noteq> [4]"
  unfolding send_bulk_out
  by simp

lemma send_write_fails:
  assumes "build_cbw (make_tag now_ms) identify_cdb = Inr cbw"
    and "fst (ep_write eps cbw 5000 s) = Inl e"
  shows "send_nvme_identify eps now_ms s =
           (Inr None, snd (ep_write eps cbw 5000 s), [BulkOut cbw 5000, PrintUsbError])"
proof -
  obtain s1 where "ep_write eps cbw 5000 s = (Inl e, s1)"
    using assms(2) by (cases "ep_write eps cbw 5000 s") auto
  then show ?thesis
    using assms(1) by (simp add: send_nvme_identify_def)
qed

text \<open>
  C6. When the write of the wrapper to the bulk-OUT endpoint raises a USB error (a timeout
  is one), \<open>send_nvme_identify\<close> returns \<open>None\<close> after that one write: it starts no read on
  the bulk-IN endpoint and does not write again; the program then prints "ERROR: No
  response from drive" and exits with status 1.
\<close>

theorem write_failure_stops:
  assumes "build_cbw (make_tag now_ms) identify_cdb = Inr cbw"
    and "fst (ep_write eps cbw 5000 s) = Inl e"
  shows "fst (send_nvme_identify eps now_ms s) = Inr None \<and>
         snd (snd (send_nvme_identify eps now_ms s)) = [BulkOut cbw 5000, PrintUsbError] \<and>
         bulk_in_count (snd (snd (send_nvme_identify eps now_ms s))) = 0 \<and>
         bulk_out_data (snd (snd (send_nvme_identify eps now_ms s))) = [cbw] \<and>
         identify_session eps now_ms s =
           (SysExit 1 (CHR 0x0A # ''ERROR: No response from drive''),
            [BulkOut cbw 5000, PrintUsbError])"
  unfolding send_write_fails [OF assms] identify_session_def
  by (simp add: bulk_in_count_def bulk_out_data_def classify_def send_write_fails [OF assms])

text \<open>A device whose write raises, although its reads would answer.\<close>

theorem write_failure_stops_witness:
  "build_cbw (make_tag 1700000000000) identify_cdb =
     Inr [0x55, 0x53, 0x42, 0x43, 0x00, 0x68, 0xE5, 0xCF, 0x00, 0x10, 0x00, 0x00, 0x80, 0x00,
          0x10, 0xE6, 0x06, 0x00, 0x01, 0, 0, 0, 0, 0, 0, 0, 0, 0, 0, 0, 0] \<and>
   fst (ep_write (scripted False)
         [0x55, 0x53, 0x42, 0x43, 0x00, 0x68, 0xE5, 0xCF, 0x00, 0x10, 0x00, 0x00, 0x80, 0x00,
          0x10, 0xE6, 0x06, 0x00, 0x01, 0, 0, 0, 0, 0, 0, 0, 0, 0, 0, 0, 0] 5000
         [Inr (replicate 4096 0x41), Inr (replicate 13 0x00)]) = Inl USBError \<and>
   fst (send_nvme_identify (scripted False) 1700000000000
         [Inr (replicate 4096 0x41), Inr (replicate 13 0x00)]) = Inr None \<and>
   bulk_in_count (snd (snd (send_nvme_identify (scripted False) 1700000000000
         [Inr (replicate 4096 0x41), Inr (replicate 13 0x00)]))) = 0 \<and>
   identify_session (scripted False) 1700000000000
         [Inr (replicate 4096 0x41), Inr (replicate 13 0x00)] =
     (SysExit 1 (CHR 0x0A # ''ERROR: No response from drive''),
      [BulkOut [0x55, 0x53, 0x42, 0x43, 0x00, 0x68, 0xE5, 0xCF, 0x00, 0x10, 0x00, 0x00, 0x80,
                0x00, 0x10, 0xE6, 0x06, 0x00, 0x01, 0, 0, 0, 0, 0, 0, 0, 0, 0, 0, 0, 0] 5000,
       PrintUsbError])"
proof -
  have w: "fst (ep_write (scripted False)
         [0x55, 0x53, 0x42, 0x43, 0x00, 0x68, 0xE5, 0xCF, 0x00, 0x10, 0x00, 0x00, 0x80, 0x00,
          0x10, 0xE6, 0x06, 0x00, 0x01, 0, 0, 0, 0, 0, 0, 0, 0, 0, 0, 0, 0] 5000
         [Inr (replicate 4096 0x41), Inr (replicate 13 0x00)]) = Inl USBError"
    by (simp add: scripted_def)
  show ?thesis
    using write_failure_stops [OF sample_cbw w] sample_cbw w by blast
qed

text \<open>
  C5, as the code has it. Once the wrapper is written and the data read has returned,
  the program asks the bulk-IN endpoint for 13 bytes and drops what it gets: the command
  returns the data whenever that read returns, whatever the length or the content of
  the status buffer, and returns \<open>None\<close> only when the read raises a USB error.
\<close>

theorem status_not_validated:
  assumes "build_cbw (make_tag now_ms) identify_cdb = Inr cbw"
    and "ep_write eps cbw 5000 s = (Inr n, s1)"
    and "ep_read eps 4096 5000 s1 = (Inr data, s2)"
  shows "fst (send_nvme_identify eps now_ms s) =
           (case fst (ep_read eps 13 5000 s2) of
              Inl e \<Rightarrow> Inr None
            | Inr csw \<Rightarrow> Inr (Some data)) \<and>
         take 3 (snd (snd (send_nvme_identify eps now_ms s))) =
           [BulkOut cbw 5000, BulkIn 4096 5000, BulkIn 13 5000]"
  using assms by (simp add: send_nvme_identify_def split: prod.splits sum.splits)

text \<open>A device that answers the status read with no bytes at all.\<close>

theorem status_not_validated_witness:
  "build_cbw (make_tag 1700000000000) identify_cdb =
     Inr [0x55, 0x53, 0x42, 0x43, 0x00, 0x68, 0xE5, 0xCF, 0x00, 0x10, 0x00, 0x00, 0x80, 0x00,
          0x10, 0xE6, 0x06, 0x00, 0x01, 0, 0, 0, 0, 0, 0, 0, 0, 0, 0, 0, 0] \<and>
   ep_write (scripted True)
     [0x55, 0x53, 0x42, 0x43, 0x00, 0x68, 0xE5, 0xCF, 0x00, 0x10, 0x00, 0x00, 0x80, 0x00,
      0x10, 0xE6, 0x06, 0x00, 0x01, 0, 0, 0, 0, 0, 0, 0, 0, 0, 0, 0, 0] 5000
     [Inr (replicate 4096 0x41), Inr []] = (Inr 31, [Inr (replicate 4096 0x41), Inr []]) \<and>
   ep_read (scripted True) 4096 5000 [Inr (replicate 4096 0x41), Inr []] =
     (Inr (replicate 4096 0x41), [Inr []]) \<and>
   fst (send_nvme_identify (scripted True) 1700000000000 [Inr (replicate 4096 0x41), Inr []]) =
     Inr (Some (replicate 4096 0x41))"
proof -
  have w: "ep_write (scripted True)
     [0x55, 0x53, 0x42, 0x43, 0x00, 0x68, 0xE5, 0xCF, 0x00, 0x10, 0x00, 0x00, 0x80, 0x00,
      0x10, 0xE6, 0x06, 0x00, 0x01, 0, 0, 0, 0, 0, 0, 0, 0, 0, 0, 0, 0] 5000
     [Inr (replicate 4096 0x41), Inr []] = (Inr 31, [Inr (replicate 4096 0x41), Inr []])"
    by (simp add: scripted_def)
  have r: "ep_read (scripted True) 4096 5000 [Inr (replicate 4096 0x41), Inr []] =
     (Inr (replicate 4096 0x41), [Inr []])"
    by (simp add: scripted_def)
  have c: "fst (ep_read (scripted True) 13 5000 [Inr []]) = Inr []"
    by (simp add: scripted_def)
  show ?thesis
    using status_not_validated [OF sample_cbw w r] sample_cbw w r by (simp add: c)
qed

text \<open>
  Two devices that answer the data read with 4096 bytes: one then sends a status buffer
  of no bytes, the other one of 13 zero bytes, whose signature is not 0x53425355. The
  command returns the data both times.
\<close>

theorem status_not_validated_counterexample:
  "fst (send_nvme_identify (scripted True) 1700000000000 [Inr (replicate 4096 0x41), Inr []]) =
     Inr (Some (replicate 4096 0x41)) \<and>
   fst (send_nvme_identify (scripted True) 1700000000000
          [Inr (replicate 4096 0x41), Inr (replicate 13 0x00)]) =
     Inr (Some (replicate 4096 0x41))"
  by (simp add: send_nvme_identify_def sample_cbw scripted_def)

section \<open>Facts about \<open>parse_identify\<close>\<close>

lemma uint_byte_bounds: "0 \<le> uint (b :: byte) \<and> uint b < 256"
  using uint_bounded [of b] by simp

lemma uint_word_cat_bytes:
  "uint (word_cat (hi :: byte) (lo :: byte) :: 16 word) =
     take_bit 16 (concat_bit 8 (uint lo) (uint hi))"
  apply (simp only: word_cat_eq')
  apply (simp only: uint_word_of_int_eq)
  apply simp
  done

lemma unpack_H_value:
  "uint (word_cat (hi :: byte) (lo :: byte) :: 16 word) = uint lo + 256 * uint hi"
proof -
  have lo: "0 \<le> uint lo" "uint lo < 256" and hi: "0 \<le> uint hi" "uint hi < 256"
    using uint_byte_bounds [of lo] uint_byte_bounds [of hi] by simp_all
  have "concat_bit 8 (uint lo) (uint hi) = uint lo + 256 * uint hi"
    using lo by (simp add: concat_bit_eq take_bit_int_eq_self push_bit_eq_mult)
  moreover have "take_bit 16 (uint lo + 256 * uint hi) = uint lo + 256 * uint hi"
    using lo hi by (intro take_bit_int_eq_self) auto
  ultimately show ?thesis
    by (simp only: uint_word_cat_bytes)
qed

lemma unpack_from_H_eq:
  "off + 2 \<le> length data \<Longrightarrow>
   unpack_from_H data off = Inr (uint (data ! off) + 256 * uint (data ! (off + 1)))"
  by (simp add: unpack_from_H_def unpack_H_value)

lemma parse_identify_long:
  assumes "72 \<le> length data"
  shows "parse_identify data =
           Inr (Some \<lparr> vid = uint (data ! 0) + 256 * uint (data ! 1),
                       ssvid = uint (data ! 2) + 256 * uint (data ! 3),
                       serial = py_strip (decode_ascii_ignore (py_slice data 4 24)),
                       model = py_strip (decode_ascii_ignore (py_slice data 24 64)),
                       firmware = py_strip (decode_ascii_ignore (py_slice data 64 72)) \<rparr>)"
proof -
  have ne: "data \<noteq> []"
    using assms by auto
  have v: "unpack_from_H data 0 = Inr (uint (data ! 0) + 256 * uint (data ! 1))"
    using assms unpack_from_H_eq [of 0 data] by simp
  have sv: "unpack_from_H data 2 = Inr (uint (data ! 2) + 256 * uint (data ! 3))"
    using assms unpack_from_H_eq [of 2 data] by simp
  show ?thesis
    using assms ne by (simp add: parse_identify_def v sv bind_err_def)
qed

lemma parse_identify_short: "length data < 72 \<Longrightarrow> parse_identify data = Inr None"
  by (simp add: parse_identify_def)

text \<open>
  C3. \<open>parse_identify\<close> returns no record for every buffer shorter than 72 bytes. For
  every buffer of at least 72 bytes it returns a record whose \<open>vid\<close> and \<open>ssvid\<close> are the
  unsigned 16-bit little-endian values of bytes 0-1 and 2-3 (low byte first, both within
  0..0xFFFF), whatever the other bytes are.
\<close>

theorem parse_identify_ids:
  "(length data < 72 \<longrightarrow> parse_identify data = Inr None) \<and>
   (72 \<le> length data \<longrightarrow>
      (\<exists>r. parse_identify data = Inr (Some r) \<and>
           vid r = uint (data ! 0) + 256 * uint (data ! 1) \<and>
           ssvid r = uint (data ! 2) + 256 * uint (data ! 3) \<and>
           0 \<le> vid r \<and> vid r \<le> 0xFFFF \<and> 0 \<le> ssvid r \<and> ssvid r \<le> 0xFFFF))"
proof (intro conjI impI)
  assume "length data < 72"
  then show "parse_identify data = Inr None"
    by (rule parse_identify_short)
next
  assume long: "72 \<le> length data"
  have b: "0 \<le> uint (data ! 0) + 256 * uint (data ! 1)"
          "uint (data ! 0) + 256 * uint (data ! 1) \<le> 0xFFFF"
          "0 \<le> uint (data ! 2) + 256 * uint (data ! 3)"
          "uint (data ! 2) + 256 * uint (data ! 3) \<le> 0xFFFF"
    using uint_byte_bounds [of "data ! 0"] uint_byte_bounds [of "data ! 1"]
          uint_byte_bounds [of "data ! 2"] uint_byte_bounds [of "data ! 3"]
    by simp_all
  show "\<exists>r. parse_identify data = Inr (Some r) \<and>
           vid r = uint (data ! 0) + 256 * uint (data ! 1) \<and>
           ssvid r = uint (data ! 2) + 256 * uint (data ! 3) \<and>
           0 \<le> vid r \<and> vid r \<le> 0xFFFF \<and> 0 \<le> ssvid r \<and> ssvid r \<le> 0xFFFF"
    using b by (simp add: parse_identify_long [OF long])
qed

text \<open>A buffer of 71 bytes, and a buffer of 72 bytes whose string fields are all 0xFF.\<close>

theorem parse_identify_ids_witness:
  "length (replicate 71 (0xFF :: byte)) < 72 \<and>
   parse_identify (replicate 71 0xFF) = Inr None \<and>
   72 \<le> length ([0x87, 0x19, 0x34, 0x12] @ replicate 68 (0xFF :: byte)) \<and>
   (\<exists>r. parse_identify ([0x87, 0x19, 0x34, 0x12] @ replicate 68 0xFF) = Inr (Some r) \<and>
        vid r = 0x1987 \<and> ssvid r = 0x1234)"
proof -
  have s: "length (replicate 71 (0xFF :: byte)) < 72"
    by simp
  have l: "72 \<le> length ([0x87, 0x19, 0x34, 0x12] @ replicate 68 (0xFF :: byte))"
    by simp
  from parse_identify_ids [of "replicate 71 0xFF"] s
  have "parse_identify (replicate 71 0xFF) = Inr None"
    by blast
  moreover from parse_identify_ids [of "[0x87, 0x19, 0x34, 0x12] @ replicate 68 0xFF"] l
  obtain r where "parse_identify ([0x87, 0x19, 0x34, 0x12] @ replicate 68 0xFF) = Inr (Some r)"
    "vid r = uint (([0x87, 0x19, 0x34, 0x12] @ replicate 68 (0xFF :: byte)) ! 0)
           + 256 * uint (([0x87, 0x19, 0x34, 0x12] @ replicate 68 (0xFF :: byte)) ! 1)"
    "ssvid r = uint (([0x87, 0x19, 0x34, 0x12] @ replicate 68 (0xFF :: byte)) ! 2)
           + 256 * uint (([0x87, 0x19, 0x34, 0x12] @ replicate 68 (0xFF :: byte)) ! 3)"
    by blast
  then have "\<exists>r. parse_identify ([0x87, 0x19, 0x34, 0x12] @ replicate 68 0xFF) = Inr (Some r) \<and>
        vid r = 0x1987 \<and> ssvid r = 0x1234"
    by simp
  ultimately show ?thesis
    using s l by blast
qed

lemma py_slice_take: "b \<le> n \<Longrightarrow> py_slice (take n xs) a b = py_slice xs a b"
  by (simp add: py_slice_def drop_take min_def)

lemma py_slice_nth: "b \<le> length xs \<Longrightarrow> py_slice xs a b = map ((!) xs) [a ..< b]"
  by (rule nth_equalityI) (auto simp: py_slice_def)

text \<open>
  C9. The result of \<open>parse_identify\<close> depends on the first 72 bytes only: two buffers of
  at least 72 bytes that agree on bytes 0 to 71 give the same result.
\<close>

theorem parse_identify_prefix:
  assumes "72 \<le> length a" "72 \<le> length b" "take 72 a = take 72 b"
  shows "parse_identify a = parse_identify b"
proof -
  have nth: "a ! i = b ! i" if "i < 72" for i
  proof -
    have "a ! i = take 72 a ! i" "b ! i = take 72 b ! i"
      using that by simp_all
    then show ?thesis
      using assms(3) by simp
  qed
  have sl: "py_slice a x y = py_slice b x y" if "y \<le> 72" for x y
    using py_slice_take [OF that, of a x] py_slice_take [OF that, of b x] assms(3) by simp
  show ?thesis
    unfolding parse_identify_long [OF assms(1)] parse_identify_long [OF assms(2)]
    by (simp add: nth sl)
qed

text \<open>Two responses of 4096 bytes that differ in every byte from offset 72 on.\<close>

theorem parse_identify_prefix_witness:
  "72 \<le> length (replicate 72 (0x41 :: byte) @ replicate 4024 0x00) \<and>
   72 \<le> length (replicate 72 (0x41 :: byte) @ replicate 4024 0xFF) \<and>
   take 72 (replicate 72 (0x41 :: byte) @ replicate 4024 0x00) =
     take 72 (replicate 72 (0x41 :: byte) @ replicate 4024 0xFF) \<and>
   parse_identify (replicate 72 0x41 @ replicate 4024 0x00) =
     parse_identify (replicate 72 0x41 @ replicate 4024 0xFF)"
proof -
  have l: "72 \<le> length (replicate 72 (0x41 :: byte) @ replicate 4024 0x00)"
          "72 \<le> length (replicate 72 (0x41 :: byte) @ replicate 4024 0xFF)"
    by simp_all
  have t: "take 72 (replicate 72 (0x41 :: byte) @ replicate 4024 0x00) =
             take 72 (replicate 72 (0x41 :: byte) @ replicate 4024 0xFF)"
    by simp
  show ?thesis
    using parse_identify_prefix [OF l t] l t by blast
qed

lemma py_strip_decomp:
  "\<exists>pre suf. s = pre @ py_strip s @ suf \<and> list_all py_isspace pre \<and> list_all py_isspace suf"
proof -
  define rest where "rest = dropWhile py_isspace s"
  define pre where "pre = takeWhile py_isspace s"
  define suf where "suf = rev (takeWhile py_isspace (rev rest))"
  have "s = pre @ rest"
    by (simp add: pre_def rest_def)
  moreover have "rev rest = takeWhile py_isspace (rev rest) @ dropWhile py_isspace (rev rest)"
    by simp
  then have "rest = rev (dropWhile py_isspace (rev rest)) @ suf"
    unfolding suf_def by (metis rev_append rev_rev_ident)
  then have "rest = py_strip s @ suf"
    by (simp add: py_strip_def rest_def)
  moreover have "list_all py_isspace pre"
    by (auto simp: pre_def list_all_iff dest: set_takeWhileD)
  moreover have "list_all py_isspace suf"
    by (auto simp: suf_def list_all_iff dest: set_takeWhileD)
  ultimately show ?thesis
    by blast
qed

lemma py_strip_ends:
  assumes "py_strip s \<noteq> []"
  shows "\<not> py_isspace (hd (py_strip s)) \<and> \<not> py_isspace (last (py_strip s))"
proof -
  define rest where "rest = dropWhile py_isspace s"
  have st: "py_strip s = rev (dropWhile py_isspace (rev rest))"
    by (simp add: py_strip_def rest_def)
  with assms have ne: "dropWhile py_isspace (rev rest) \<noteq> []"
    by simp
  then have "\<not> py_isspace (hd (dropWhile py_isspace (rev rest)))"
    by (rule hd_dropWhile)
  then have l: "\<not> py_isspace (last (py_strip s))"
    using ne by (simp add: st last_rev)
  have "rest = py_strip s @ rev (takeWhile py_isspace (rev rest))"
    unfolding st by (metis rev_append rev_rev_ident takeWhile_dropWhile_id)
  then have "hd rest = hd (py_strip s)"
    using assms by (metis hd_append2)
  moreover have "rest \<noteq> []"
    using ne by auto
  then have "\<not> py_isspace (hd rest)"
    unfolding rest_def by (rule hd_dropWhile)
  ultimately show ?thesis
    using l by simp
qed

lemma field_text_strip: "field_text raw (py_strip (decode_ascii_ignore raw))"
proof -
  obtain pre suf where
    "decode_ascii_ignore raw = pre @ py_strip (decode_ascii_ignore raw) @ suf"
    "list_all py_isspace pre" "list_all py_isspace suf"
    using py_strip_decomp [of "decode_ascii_ignore raw"] by blast
  then show ?thesis
    unfolding field_text_def
    using py_strip_ends [of "decode_ascii_ignore raw"]
    by (fold decode_ascii_ignore_def) blast
qed

text \<open>
  C4, as the code has it. For every buffer of at least 72 bytes the decode succeeds, and
  each of \<open>serial\<close>, \<open>model\<close> and \<open>firmware\<close> is made from its byte range (bytes 4-23,
  24-63 and 64-71) by leaving out the bytes from 0x80 up and then removing the whitespace
  at both ends. A NUL byte and any other byte below 0x80 that is not whitespace stays in
  the text, wherever it stands.
\<close>

theorem parse_identify_fields:
  assumes "72 \<le> length data"
  shows "\<exists>r. parse_identify data = Inr (Some r) \<and>
           field_text (map ((!) data) [4 ..< 24]) (serial r) \<and>
           field_text (map ((!) data) [24 ..< 64]) (model r) \<and>
           field_text (map ((!) data) [64 ..< 72]) (firmware r)"
proof -
  have "py_slice data 4 24 = map ((!) data) [4 ..< 24]"
       "py_slice data 24 64 = map ((!) data) [24 ..< 64]"
       "py_slice data 64 72 = map ((!) data) [64 ..< 72]"
    using assms by (simp_all add: py_slice_nth)
  then show ?thesis
    using field_text_strip [of "py_slice data 4 24"] field_text_strip [of "py_slice data 24 64"]
      field_text_strip [of "py_slice data 64 72"]
    by (simp add: parse_identify_long [OF assms])
qed

text \<open>A response of 72 bytes with space-padded fields.\<close>

theorem parse_identify_fields_witness:
  "72 \<le> length ([0x4d, 0x14, 0x4d, 0x14] @ ascii_bytes ''S6Z2NJ0W123456'' @ replicate 6 0x20 @
        ascii_bytes ''Samsung SSD 990 PRO 1TB'' @ replicate 17 0x20 @ ascii_bytes ''4B2QJXD7'') \<and>
   (\<exists>r. parse_identify ([0x4d, 0x14, 0x4d, 0x14] @ ascii_bytes ''S6Z2NJ0W123456'' @
          replicate 6 0x20 @ ascii_bytes ''Samsung SSD 990 PRO 1TB'' @ replicate 17 0x20 @
          ascii_bytes ''4B2QJXD7'') = Inr (Some r) \<and>
        serial r = ''S6Z2NJ0W123456'' \<and> model r = ''Samsung SSD 990 PRO 1TB'' \<and>
        firmware r = ''4B2QJXD7'' \<and>
        field_text (ascii_bytes ''S6Z2NJ0W123456'' @ replicate 6 0x20) (serial r) \<and>
        field_text (ascii_bytes ''Samsung SSD 990 PRO 1TB'' @ replicate 17 0x20) (model r) \<and>
        field_text (ascii_bytes ''4B2QJXD7'') (firmware r))"
proof -
  define d where "d = [0x4d, 0x14, 0x4d, 0x14] @ ascii_bytes ''S6Z2NJ0W123456'' @
        replicate 6 0x20 @ ascii_bytes ''Samsung SSD 990 PRO 1TB'' @ replicate 17 0x20 @
        ascii_bytes ''4B2QJXD7''"
  have len: "72 \<le> length d"
    by (simp add: d_def ascii_bytes_def)
  have r1: "map ((!) d) [4 ..< 24] = ascii_bytes ''S6Z2NJ0W123456'' @ replicate 6 0x20"
    unfolding d_def by code_simp
  have r2: "map ((!) d) [24 ..< 64] = ascii_bytes ''Samsung SSD 990 PRO 1TB'' @ replicate 17 0x20"
    unfolding d_def by code_simp
  have r3: "map ((!) d) [64 ..< 72] = ascii_bytes ''4B2QJXD7''"
    unfolding d_def by code_simp
  have v: "parse_identify d =
      Inr (Some \<lparr> vid = 0x144d, ssvid = 0x144d, serial = ''S6Z2NJ0W123456'',
                  model = ''Samsung SSD 990 PRO 1TB'', firmware = ''4B2QJXD7'' \<rparr>)"
    unfolding d_def by code_simp
  from parse_identify_fields [OF len] obtain r where r:
    "parse_identify d = Inr (Some r)"
    "field_text (map ((!) d) [4 ..< 24]) (serial r)"
    "field_text (map ((!) d) [24 ..< 64]) (model r)"
    "field_text (map ((!) d) [64 ..< 72]) (firmware r)"
    by blast
  from r(1) v have "r = \<lparr> vid = 0x144d, ssvid = 0x144d, serial = ''S6Z2NJ0W123456'',
                  model = ''Samsung SSD 990 PRO 1TB'', firmware = ''4B2QJXD7'' \<rparr>"
    by simp
  then have "serial r = ''S6Z2NJ0W123456''" "model r = ''Samsung SSD 990 PRO 1TB''"
    "firmware r = ''4B2QJXD7''"
    by simp_all
  with r(1) r(2) [unfolded r1] r(3) [unfolded r2] r(4) [unfolded r3]
  have "\<exists>r. parse_identify d = Inr (Some r) \<and>
        serial r = ''S6Z2NJ0W123456'' \<and> model r = ''Samsung SSD 990 PRO 1TB'' \<and>
        firmware r = ''4B2QJXD7'' \<and>
        field_text (ascii_bytes ''S6Z2NJ0W123456'' @ replicate 6 0x20) (serial r) \<and>
        field_text (ascii_bytes ''Samsung SSD 990 PRO 1TB'' @ replicate 17 0x20) (model r) \<and>
        field_text (ascii_bytes ''4B2QJXD7'') (firmware r)"
    by blast
  then show ?thesis
    using len unfolding d_def by blast
qed

text \<open>
  A serial field that holds \<open>S\<close>, the control byte 0x07, \<open>1\<close> and seventeen NUL bytes. The
  code keeps the control byte and the NUL padding; trimming NUL and discarding the bytes
  that are not printable, as the specification has it, would give \<open>S1\<close>.
\<close>

theorem parse_identify_fields_counterexample:
  "parse_identify
     ([0x4d, 0x14, 0x4d, 0x14] @ [0x53, 0x07, 0x31] @ replicate 17 0x00 @ replicate 48 0x20) =
     Inr (Some \<lparr> vid = 0x144d, ssvid = 0x144d,
                 serial = [CHR ''S'', CHR 0x07, CHR ''1''] @ replicate 17 (CHR 0x00),
                 model = [], firmware = [] \<rparr>) \<and>
   spec_trim_field (py_slice
     ([0x4d, 0x14, 0x4d, 0x14] @ [0x53, 0x07, 0x31] @ replicate 17 0x00 @ replicate 48 0x20)
     4 24) = ''S1'' \<and>
   [CHR ''S'', CHR 0x07, CHR ''1''] @ replicate 17 (CHR 0x00) \<noteq> ''S1''"
  by code_simp

lemma samsung_model:
  "py_strip (decode_ascii_ignore (ascii_bytes ''Samsung SSD 990 PRO 1TB'' @ replicate 17 0x20)) =
     ''Samsung SSD 990 PRO 1TB''"
  by code_simp

lemma vendor_name_samsung: "vendor_name 0x144d = ''Samsung''"
  by (simp add: vendor_name_def VENDORS_def)

lemma vendor_name_unknown:
  "v \<notin> {0x1987, 0x144d, 0x15b7, 0x1e0f, 0x1c5c, 0x126f, 0x1179, 0x2646, 0x1dee, 0x1e4b,
          0x1d97, 0x025e, 0x8086, 0x1344, 0x1cc1, 0xc0a9, 0x1d79} \<Longrightarrow>
   vendor_name v = ''Unknown''"
  by (simp add: vendor_name_def VENDORS_def)

text \<open>
  C8. A buffer of at least 72 bytes whose bytes 0-1 are 4d 14 and whose bytes 24-63 spell
  "Samsung SSD 990 PRO 1TB" padded with spaces decodes to a record with \<open>vid = 0x144d\<close>
  and that model number; the table gives the vendor name "Samsung", and the program
  reports the record under that name. A vendor ID that is none of the seventeen keys of
  the table gets the name "Unknown".
\<close>

theorem samsung_scenario:
  "(72 \<le> length data \<and> data ! 0 = 0x4d \<and> data ! 1 = 0x14 \<and>
    map ((!) data) [24 ..< 64] = ascii_bytes ''Samsung SSD 990 PRO 1TB'' @ replicate 17 0x20 \<longrightarrow>
    (\<exists>r. parse_identify data = Inr (Some r) \<and> vid r = 0x144d \<and>
         model r = ''Samsung SSD 990 PRO 1TB'' \<and> vendor_name (vid r) = ''Samsung'' \<and>
         classify (Some data) = Identified r ''Samsung'')) \<and>
   (v \<notin> {0x1987, 0x144d, 0x15b7, 0x1e0f, 0x1c5c, 0x126f, 0x1179, 0x2646, 0x1dee, 0x1e4b,
          0x1d97, 0x025e, 0x8086, 0x1344, 0x1cc1, 0xc0a9, 0x1d79} \<longrightarrow>
    vendor_name v = ''Unknown'')"
proof (intro conjI impI)
  assume a: "72 \<le> length data \<and> data ! 0 = 0x4d \<and> data ! 1 = 0x14 \<and>
    map ((!) data) [24 ..< 64] = ascii_bytes ''Samsung SSD 990 PRO 1TB'' @ replicate 17 0x20"
  then have len: "72 \<le> length data"
    by simp
  have ne: "data \<noteq> []"
    using len by auto
  have sl: "py_slice data 24 64 = ascii_bytes ''Samsung SSD 990 PRO 1TB'' @ replicate 17 0x20"
    using a len by (simp only: py_slice_nth)
  define r where "r = \<lparr> vid = uint (data ! 0) + 256 * uint (data ! 1),
                       ssvid = uint (data ! 2) + 256 * uint (data ! 3),
                       serial = py_strip (decode_ascii_ignore (py_slice data 4 24)),
                       model = py_strip (decode_ascii_ignore (py_slice data 24 64)),
                       firmware = py_strip (decode_ascii_ignore (py_slice data 64 72)) \<rparr>"
  have p: "parse_identify data = Inr (Some r)"
    unfolding r_def by (rule parse_identify_long [OF len])
  have v: "vid r = 0x144d"
    using a by (simp add: r_def)
  have m: "model r = ''Samsung SSD 990 PRO 1TB''"
    by (simp add: r_def sl samsung_model)
  have c: "classify (Some data) = Identified r ''Samsung''"
    using ne by (simp add: classify_def p v vendor_name_samsung)
  show "\<exists>r. parse_identify data = Inr (Some r) \<and> vid r = 0x144d \<and>
         model r = ''Samsung SSD 990 PRO 1TB'' \<and> vendor_name (vid r) = ''Samsung'' \<and>
         classify (Some data) = Identified r ''Samsung''"
    using p v m c vendor_name_samsung by auto
next
  assume "v \<notin> {0x1987, 0x144d, 0x15b7, 0x1e0f, 0x1c5c, 0x126f, 0x1179, 0x2646, 0x1dee, 0x1e4b,
          0x1d97, 0x025e, 0x8086, 0x1344, 0x1cc1, 0xc0a9, 0x1d79}"
  then show "vendor_name v = ''Unknown''"
    by (rule vendor_name_unknown)
qed

text \<open>The buffer of the scenario, with a serial number and a firmware revision, and the
  vendor ID 0x1b4b, which the table does not have.\<close>

theorem samsung_scenario_witness:
  "72 \<le> length ([0x4d, 0x14, 0x4d, 0x14] @ ascii_bytes ''S6Z2NJ0W123456'' @ replicate 6 0x20 @
        ascii_bytes ''Samsung SSD 990 PRO 1TB'' @ replicate 17 0x20 @ ascii_bytes ''4B2QJXD7'') \<and>
   (\<exists>r. parse_identify ([0x4d, 0x14, 0x4d, 0x14] @ ascii_bytes ''S6Z2NJ0W123456'' @
          replicate 6 0x20 @ ascii_bytes ''Samsung SSD 990 PRO 1TB'' @ replicate 17 0x20 @
          ascii_bytes ''4B2QJXD7'') = Inr (Some r) \<and>
        vid r = 0x144d \<and> model r = ''Samsung SSD 990 PRO 1TB'' \<and>
        vendor_name (vid r) = ''Samsung'' \<and>
        classify (Some ([0x4d, 0x14, 0x4d, 0x14] @ ascii_bytes ''S6Z2NJ0W123456'' @
          replicate 6 0x20 @ ascii_bytes ''Samsung SSD 990 PRO 1TB'' @ replicate 17 0x20 @
          ascii_bytes ''4B2QJXD7'')) = Identified r ''Samsung'') \<and>
   vendor_name 0x1b4b = ''Unknown''"
proof -
  define d where "d = [0x4d, 0x14, 0x4d, 0x14] @ ascii_bytes ''S6Z2NJ0W123456'' @
        replicate 6 0x20 @ ascii_bytes ''Samsung SSD 990 PRO 1TB'' @ replicate 17 0x20 @
        ascii_bytes ''4B2QJXD7''"
  have len: "72 \<le> length d"
    by (simp add: d_def ascii_bytes_def)
  have b: "d ! 0 = 0x4d" "d ! 1 = 0x14"
    by (simp_all add: d_def)
  have sl: "map ((!) d) [24 ..< 64] = ascii_bytes ''Samsung SSD 990 PRO 1TB'' @ replicate 17 0x20"
    unfolding d_def by code_simp
  have nin: "(0x1b4b :: int) \<notin> {0x1987, 0x144d, 0x15b7, 0x1e0f, 0x1c5c, 0x126f, 0x1179, 0x2646,
          0x1dee, 0x1e4b, 0x1d97, 0x025e, 0x8086, 0x1344, 0x1cc1, 0xc0a9, 0x1d79}"
    by simp
  show ?thesis
    using samsung_scenario [of d "0x1b4b"] len b sl nin unfolding d_def by blast
qed

section \<open>Facts about the end of \<open>main\<close>\<close>

lemma parse_zero_buffer:
  "parse_identify (replicate 4096 0x00) =
     Inr (Some \<lparr> vid = 0, ssvid = 0, serial = replicate 20 (CHR 0x00),
                 model = replicate 40 (CHR 0x00), firmware = replicate 8 (CHR 0x00) \<rparr>)"
proof -
  have "py_strip (replicate 20 (CHR 0x00)) = replicate 20 (CHR 0x00)"
       "py_strip (replicate 40 (CHR 0x00)) = replicate 40 (CHR 0x00)"
       "py_strip (replicate 8 (CHR 0x00)) = replicate 8 (CHR 0x00)"
    by code_simp+
  moreover have "char_of (0 :: nat) = CHR 0x00"
    by code_simp
  then have "decode_ascii_ignore (replicate k 0x00) = replicate k (CHR 0x00)" for k
    by (simp add: decode_ascii_ignore_def)
  ultimately show ?thesis
    by (subst parse_identify_long) (simp_all add: py_slice_def)
qed

lemma invalid_msg_cases:
  "data \<noteq> [] \<Longrightarrow> parse_identify data = Inr None \<Longrightarrow>
     classify (Some data) =
       SysExit 1 (CHR 0x0A # ''ERROR: Invalid response - firmware may be blocking identify'')"
  "parse_identify data = Inr (Some r) \<Longrightarrow> vid r = 0 \<or> vid r = 0xFFFF \<Longrightarrow>
     classify (Some data) =
       SysExit 1 (CHR 0x0A # ''ERROR: Invalid response - firmware may be blocking identify'')"
  "parse_identify data = Inr (Some r) \<Longrightarrow> vid r \<noteq> 0 \<Longrightarrow> vid r \<noteq> 0xFFFF \<Longrightarrow>
     classify (Some data) = Identified r (vendor_name (vid r))"
  by (auto simp: classify_def parse_identify_def split: if_splits)

text \<open>
  C7, as the code has it. A response of 4096 zero bytes decodes to a record with
  \<open>vid = 0\<close>, and the program prints "ERROR: Invalid response - firmware may be blocking
  identify" and exits with status 1. It does so for a decoded record exactly when the
  vendor ID is 0x0000 or 0xFFFF, and it does the same, with the same message and status,
  when \<open>parse_identify\<close> returns no record.
\<close>

theorem zero_identity_invalid:
  "parse_identify (replicate 4096 0x00) =
     Inr (Some \<lparr> vid = 0, ssvid = 0, serial = replicate 20 (CHR 0x00),
                 model = replicate 40 (CHR 0x00), firmware = replicate 8 (CHR 0x00) \<rparr>) \<and>
   classify (Some (replicate 4096 0x00)) =
     SysExit 1 (CHR 0x0A # ''ERROR: Invalid response - firmware may be blocking identify'') \<and>
   (parse_identify data = Inr (Some r) \<longrightarrow>
      (classify (Some data) =
         SysExit 1 (CHR 0x0A # ''ERROR: Invalid response - firmware may be blocking identify'')
       \<longleftrightarrow> vid r = 0 \<or> vid r = 0xFFFF)) \<and>
   (data' \<noteq> [] \<and> parse_identify data' = Inr None \<longrightarrow>
      classify (Some data') =
        SysExit 1 (CHR 0x0A # ''ERROR: Invalid response - firmware may be blocking identify''))"
proof (intro conjI impI)
  show "parse_identify (replicate 4096 0x00) =
     Inr (Some \<lparr> vid = 0, ssvid = 0, serial = replicate 20 (CHR 0x00),
                 model = replicate 40 (CHR 0x00), firmware = replicate 8 (CHR 0x00) \<rparr>)"
    by (rule parse_zero_buffer)
  show "classify (Some (replicate 4096 0x00)) =
     SysExit 1 (CHR 0x0A # ''ERROR: Invalid response - firmware may be blocking identify'')"
    using invalid_msg_cases(2) [OF parse_zero_buffer] by simp
next
  assume p: "parse_identify data = Inr (Some r)"
  show "classify (Some data) =
         SysExit 1 (CHR 0x0A # ''ERROR: Invalid response - firmware may be blocking identify'')
       \<longleftrightarrow> vid r = 0 \<or> vid r = 0xFFFF"
  proof (cases "vid r = 0 \<or> vid r = 0xFFFF")
    case True
    then show ?thesis
      using invalid_msg_cases(2) [OF p] by simp
  next
    case False
    then have "classify (Some data) = Identified r (vendor_name (vid r))"
      using invalid_msg_cases(3) [OF p] by simp
    with False show ?thesis
      by simp
  qed
next
  assume "data' \<noteq> [] \<and> parse_identify data' = Inr None"
  then show "classify (Some data') =
        SysExit 1 (CHR 0x0A # ''ERROR: Invalid response - firmware may be blocking identify'')"
    using invalid_msg_cases(1) by blast
qed


text \<open>A record with the vendor ID 0xFFFF, and a buffer of 71 bytes, which has no record.\<close>

theorem zero_identity_invalid_witness:
  "parse_identify ([0xFF, 0xFF] @ replicate 70 0x20) =
     Inr (Some \<lparr> vid = 0xFFFF, ssvid = 0x2020, serial = [], model = [], firmware = [] \<rparr>) \<and>
   classify (Some ([0xFF, 0xFF] @ replicate 70 0x20)) =
     SysExit 1 (CHR 0x0A # ''ERROR: Invalid response - firmware may be blocking identify'') \<and>
   replicate 71 (0x00 :: byte) \<noteq> [] \<and>
   parse_identify (replicate 71 0x00) = Inr None \<and>
   classify (Some (replicate 71 0x00)) =
     SysExit 1 (CHR 0x0A # ''ERROR: Invalid response - firmware may be blocking identify'')"
proof -
  define r0 where
    "r0 = \<lparr> vid = 0xFFFF, ssvid = 0x2020, serial = [], model = [], firmware = [] \<rparr>"
  have p: "parse_identify ([0xFF, 0xFF] @ replicate 70 0x20) = Inr (Some r0)"
    unfolding r0_def by code_simp
  have v: "vid r0 = 0 \<or> vid r0 = 0xFFFF"
    by (simp add: r0_def)
  have n: "replicate 71 (0x00 :: byte) \<noteq> []"
    by simp
  have q: "parse_identify (replicate 71 0x00) = Inr None"
    by (simp add: parse_identify_short)
  show ?thesis
    using zero_identity_invalid [of "[0xFF, 0xFF] @ replicate 70 0x20" r0 "replicate 71 0x00"]
      p v n q
    unfolding r0_def by blast
qed

text \<open>
  The response of 4096 zero bytes, which decodes to a record, and a response of 71 zero
  bytes, which does not decode: the program ends in the same way on both, so the blocked
  identity is not told apart from the structural failure.
\<close>

theorem zero_identity_invalid_counterexample:
  "parse_identify (replicate 71 0x00) = Inr None \<and>
   classify (Some (replicate 4096 0x00)) = classify (Some (replicate 71 0x00))"
proof -
  have q: "parse_identify (replicate 71 0x00) = Inr None"
    by (simp add: parse_identify_short)
  have "classify (Some (replicate 71 0x00)) =
     SysExit 1 (CHR 0x0A # ''ERROR: Invalid response - firmware may be blocking identify'')"
    using invalid_msg_cases(1) [OF _ q] by simp
  moreover have "classify (Some (replicate 4096 0x00)) =
     SysExit 1 (CHR 0x0A # ''ERROR: Invalid response - firmware may be blocking identify'')"
    using invalid_msg_cases(2) [OF parse_zero_buffer] by simp
  ultimately show ?thesis
    using q by simp
qed

section \<open>Facts about the dump\<close>

lemma map_err_total:
  assumes "\<And>x. x \<in> set xs \<Longrightarrow> \<exists>y. f x = Inr y"
  shows "\<exists>ys. map_err f xs = Inr ys \<and> length ys = length xs"
  using assms
proof (induction xs)
  case Nil
  then show ?case by simp
next
  case (Cons x xs)
  obtain y where y: "f x = Inr y"
    using Cons.prems [of x] by auto
  obtain ys where ys: "map_err f xs = Inr ys" "length ys = length xs"
    using Cons.IH Cons.prems by auto
  show ?case
    by (simp add: y ys bind_err_def)
qed

lemma row_range_bound: "j \<in> set (row_range data i) \<Longrightarrow> j < length data"
  by (simp add: row_range_def)

lemma dump_row_total: "\<exists>row. dump_row data i = Inr row"
proof -
  have g: "getitem data j = Inr (data ! j)" if "j \<in> set (row_range data i)" for j
    using row_range_bound [OF that] by (simp add: getitem_def)
  have "\<exists>y. bind_err (getitem data j) (\<lambda>b. Inr (format_x 2 (unat b))) = Inr y"
    if "j \<in> set (row_range data i)" for j
    by (simp add: g [OF that] bind_err_def)
  from map_err_total [of "row_range data i"
      "\<lambda>j. bind_err (getitem data j) (\<lambda>b. Inr (format_x 2 (unat b)))", OF this]
  obtain hexs where h: "map_err (\<lambda>j. bind_err (getitem data j) (\<lambda>b. Inr (format_x 2 (unat b))))
                          (row_range data i) = Inr hexs"
    by blast
  have "\<exists>y. bind_err (getitem data j) (\<lambda>b.
               if 32 \<le> b \<and> b < 127
               then bind_err (getitem data j) (\<lambda>b'. Inr (char_of (unat b')))
               else Inr CHR ''.'') = Inr y"
    if "j \<in> set (row_range data i)" for j
    by (simp add: g [OF that] bind_err_def)
  from map_err_total [of "row_range data i"
      "\<lambda>j. bind_err (getitem data j) (\<lambda>b.
               if 32 \<le> b \<and> b < 127
               then bind_err (getitem data j) (\<lambda>b'. Inr (char_of (unat b')))
               else Inr CHR ''.'')", OF this]
  obtain asc where a: "map_err (\<lambda>j. bind_err (getitem data j) (\<lambda>b.
                          if 32 \<le> b \<and> b < 127
                          then bind_err (getitem data j) (\<lambda>b'. Inr (char_of (unat b')))
                          else Inr CHR ''.''))
                        (row_range data i) = Inr asc"
    by blast
  show ?thesis
    unfolding dump_row_def h a by (simp add: bind_err_def)
qed

text \<open>
  C10. For a buffer of any length the dump raises no \<open>IndexError\<close>: it produces its five
  rows, and every index of \<open>range(i, min(i+16, len(data)))\<close>, for each row start \<open>i\<close> of
  \<open>range(0, 80, 16)\<close>, is below \<open>len(data)\<close>.
\<close>

theorem hex_dump_in_range:
  "(\<exists>rows. hex_dump data = Inr rows \<and> length rows = 5) \<and>
   (\<forall>i \<in> set [0, 16, 32, 48, 64]. \<forall>j \<in> set (row_range data i). j < length data)"
proof
  obtain rows where rows: "map_err (dump_row data) [0, 16, 32, 48, 64] = Inr rows"
    "length rows = length [0, 16, 32, 48, 64 :: nat]"
    using map_err_total [of "[0, 16, 32, 48, 64]" "dump_row data", OF dump_row_total]
    by blast
  from rows(2) have "length rows = 5"
    by simp
  with rows(1) show "\<exists>rows. hex_dump data = Inr rows \<and> length rows = 5"
    unfolding hex_dump_def by blast
  show "\<forall>i \<in> set [0, 16, 32, 48, 64]. \<forall>j \<in> set (row_range data i). j < length data"
    using row_range_bound by blast
qed

text \<open>A buffer of 20 bytes: the second row is cut short and the last three are empty.\<close>

theorem hex_dump_in_range_witness:
  "hex_dump (ascii_bytes ''NVMe'' @ replicate 16 0x00) =
     Inr [''  0000: 4e 56 4d 65 00 00 00 00 00 00 00 00 00 00 00 00  NVMe............'',
          ''  0010: 00 00 00 00  ....'',
          ''  0020:   '', ''  0030:   '', ''  0040:   ''] \<and>
   list_all (\<lambda>j. j < length (ascii_bytes ''NVMe'' @ replicate 16 0x00))
     (concat (map (row_range (ascii_bytes ''NVMe'' @ replicate 16 0x00)) [0, 16, 32, 48, 64]))"
proof -
  have "hex_dump (ascii_bytes ''NVMe'' @ replicate 16 0x00) =
     Inr [''  0000: 4e 56 4d 65 00 00 00 00 00 00 00 00 00 00 00 00  NVMe............'',
          ''  0010: 00 00 00 00  ....'',
          ''  0020:   '', ''  0030:   '', ''  0040:   '']"
    by code_simp
  then show ?thesis
    using hex_dump_in_range [of "ascii_bytes ''NVMe'' @ replicate 16 0x00"]
    by (auto simp: list_all_iff)
qed

end
